theory Spec2Isabelle
  imports Complex_Main
begin

section \<open>Values\<close>

text \<open>
  A JavaScript number is an IEEE double. The special values are kept apart from the finite
  ones, so that \<open>isFinite\<close>, truthiness and \<open>===\<close> can be written out; a finite double is
  carried as the rational it denotes (\<open>Finite 0\<close> is \<open>+0\<close>, \<open>NegZero\<close> is \<open>-0\<close>).
\<close>

datatype number = Finite rat | NegZero | PosInf | NegInf | NaN

text \<open>
  A \<open>Date\<close> object holds a time value: milliseconds since the epoch, or \<open>NaN\<close> for the
  object that prints as \<open>Invalid Date\<close>.
\<close>

datatype date = InvalidDate | Date int

text \<open>
  The values a row holds and a node returns. \<open>Missing\<close> is \<open>util.MISSING\<close>.
\<close>

datatype val = Missing | Number number | Text string | Logical bool | Datetime date

datatype error =
    CheckFailed string
  | NotNumber string
  | TypeMismatch string
  | ReferenceError string

type_synonym row = "string \<rightharpoonup> val"

subsection \<open>Built-in operations of the language\<close>

definition isFinite :: "number \<Rightarrow> bool" where
  "isFinite n = (case n of Finite q \<Rightarrow> True | NegZero \<Rightarrow> True
                 | PosInf \<Rightarrow> False | NegInf \<Rightarrow> False | NaN \<Rightarrow> False)"

definition is_zero :: "number \<Rightarrow> bool" where
  "is_zero n = (case n of Finite q \<Rightarrow> q = 0 | NegZero \<Rightarrow> True
                | PosInf \<Rightarrow> False | NegInf \<Rightarrow> False | NaN \<Rightarrow> False)"

text \<open>\<open>a === b\<close> on numbers: \<open>NaN\<close> equals nothing, the two zeros are equal.\<close>

definition num_eq :: "number \<Rightarrow> number \<Rightarrow> bool" where
  "num_eq a b = (a \<noteq> NaN \<and> b \<noteq> NaN \<and> (a = b \<or> (is_zero a \<and> is_zero b)))"

fun num_rank :: "number \<Rightarrow> int \<times> rat" where
  "num_rank NegInf = (- 1, 0)"
| "num_rank (Finite q) = (0, q)"
| "num_rank NegZero = (0, 0)"
| "num_rank PosInf = (1, 0)"
| "num_rank NaN = (2, 0)"

text \<open>\<open>a < b\<close> and \<open>a <= b\<close> on numbers: false as soon as one side is \<open>NaN\<close>.\<close>

definition num_less :: "number \<Rightarrow> number \<Rightarrow> bool" where
  "num_less a b = (a \<noteq> NaN \<and> b \<noteq> NaN \<and>
     (fst (num_rank a) < fst (num_rank b) \<or>
      (fst (num_rank a) = fst (num_rank b) \<and> snd (num_rank a) < snd (num_rank b))))"

definition num_le :: "number \<Rightarrow> number \<Rightarrow> bool" where
  "num_le a b = (a \<noteq> NaN \<and> b \<noteq> NaN \<and>
     (fst (num_rank a) < fst (num_rank b) \<or>
      (fst (num_rank a) = fst (num_rank b) \<and> snd (num_rank a) \<le> snd (num_rank b))))"

text \<open>Unary minus is exact: it flips the sign, also of zero and of the infinities.\<close>

definition num_neg :: "number \<Rightarrow> number" where
  "num_neg n = (case n of
       Finite q \<Rightarrow> (if q = 0 then NegZero else Finite (- q))
     | NegZero \<Rightarrow> Finite 0
     | PosInf \<Rightarrow> NegInf
     | NegInf \<Rightarrow> PosInf
     | NaN \<Rightarrow> NaN)"

text \<open>Strings compare by code unit, the shorter one first when it is a prefix.\<close>

fun str_less :: "string \<Rightarrow> string \<Rightarrow> bool" where
  "str_less [] [] = False"
| "str_less [] (y # ys) = True"
| "str_less (x # xs) [] = False"
| "str_less (x # xs) (y # ys) =
     (if x = y then str_less xs ys else (of_char x :: nat) < of_char y)"

text \<open>
  Truthiness, as \<open>!v\<close> and \<open>v ? a : b\<close> read it: \<open>false\<close>, both zeros, \<open>NaN\<close>, the empty
  string and the missing value are falsy, every object (so every \<open>Date\<close>) is truthy.
\<close>

fun truthy :: "val \<Rightarrow> bool" where
  "truthy Missing = False"
| "truthy (Number n) = (\<not> is_zero n \<and> n \<noteq> NaN)"
| "truthy (Text s) = (s \<noteq> [])"
| "truthy (Logical b) = b"
| "truthy (Datetime d) = True"

text \<open>\<open>d.getTime()\<close>.\<close>

definition getTime :: "date \<Rightarrow> number" where
  "getTime d = (case d of InvalidDate \<Rightarrow> NaN | Date t \<Rightarrow> Finite (of_int t))"

text \<open>\<open>a === b\<close> on values: never true across types; two (distinct) \<open>Date\<close> objects are
  different objects whatever they hold, which is why \<open>util.equal\<close> exists.\<close>

fun strict_equal :: "val \<Rightarrow> val \<Rightarrow> bool" where
  "strict_equal Missing Missing = True"
| "strict_equal (Number a) (Number b) = num_eq a b"
| "strict_equal (Text a) (Text b) = (a = b)"
| "strict_equal (Logical a) (Logical b) = (a = b)"
| "strict_equal _ _ = False"

subsection \<open>The helpers of \<open>util\<close>\<close>

text \<open>
  Modelled from the spec: \<open>util.check\<close>, which \<open>expr.js\<close> requires from \<open>./util\<close>. It raises
  an error carrying the message when the condition does not hold.
\<close>

definition check :: "bool \<Rightarrow> string \<Rightarrow> error + unit" where
  "check cond message = (if cond then Inr () else Inl (CheckFailed message))"

text \<open>
  Modelled from the spec: \<open>util.checkNumber\<close>. Arithmetic on a value that is neither missing
  nor a number is a type error; a missing value passes, and the test "handles missing values
  in binary arithmetic correctly" runs a missing operand through it with no error.
\<close>

definition checkNumber :: "val \<Rightarrow> string \<Rightarrow> error + unit" where
  "checkNumber v message =
     (case v of Missing \<Rightarrow> Inr () | Number n \<Rightarrow> Inr () | _ \<Rightarrow> Inl (NotNumber message))"

text \<open>
  The result of \<open>typeof\<close>. Every caller asks whether the value is the missing one before
  it asks for the type, so the answer on the missing value is never read.
\<close>

datatype jstype = TNumber | TString | TBoolean | TObject

fun typeof :: "val \<Rightarrow> jstype" where
  "typeof (Number n) = TNumber"
| "typeof (Text s) = TString"
| "typeof (Logical b) = TBoolean"
| "typeof (Datetime d) = TObject"
| "typeof Missing = TObject"

text \<open>
  Modelled from the spec: \<open>util.checkTypeEqual\<close>. Both operands of a comparison are of the
  same runtime type, after the check for missing values, or the comparison fails with a
  type mismatch.
\<close>

definition checkTypeEqual :: "val \<Rightarrow> val \<Rightarrow> string \<Rightarrow> error + unit" where
  "checkTypeEqual left right message =
     (if left = Missing \<or> right = Missing \<or> typeof left = typeof right
      then Inr () else Inl (TypeMismatch message))"

text \<open>
  Modelled from the spec: \<open>util.equal\<close>. Equality is value equality: two dates compare by
  instant, not by object identity; everything else compares with \<open>===\<close>.
\<close>

fun util_equal :: "val \<Rightarrow> val \<Rightarrow> bool" where
  "util_equal (Datetime a) (Datetime b) = num_eq (getTime a) (getTime b)"
| "util_equal a b = strict_equal a b"

section \<open>Expression nodes\<close>

text \<open>
  The kinds, grouped as the classes are: each group is the set of classes derived from one
  base class (\<open>ExprNegationBase\<close>, \<open>ExprTypecheckBase\<close>, \<open>ExprConvertBase\<close>,
  \<open>ExprDatetimeBase\<close>, \<open>ExprArithmeticBase\<close>, \<open>ExprCompareBase\<close>, \<open>ExprLogicalBase\<close>).
\<close>

datatype negation_kind = K_negate | K_not

datatype typecheck_kind = K_isLogical | K_isDatetime | K_isMissing | K_isNumber | K_isText

datatype convert_kind = K_toLogical | K_toDatetime | K_toNumber | K_toString

datatype datetime_kind =
  K_toYear | K_toMonth | K_toDay | K_toWeekday | K_toHours | K_toMinutes | K_toSeconds

datatype unary_kind =
    Negation negation_kind
  | Typecheck typecheck_kind
  | Convert convert_kind
  | DatetimeField datetime_kind

datatype arithmetic_kind = K_add | K_divide | K_multiply | K_power | K_remainder | K_subtract

datatype compare_kind =
  K_equal | K_greater | K_greaterEqual | K_less | K_lessEqual | K_notEqual

datatype logical_kind = K_and | K_or

datatype binary_kind =
    Arithmetic arithmetic_kind
  | Compare compare_kind
  | LogicalOp logical_kind

text \<open>
  One constructor for each class that is instantiated without a child, one for each family
  of classes with children (\<open>ExprUnary\<close>, \<open>ExprBinary\<close>, and \<open>ExprIfElse\<close>, the only class
  derived from \<open>ExprTernaryBase\<close>). \<open>None\<close> in a literal is the missing value, which the
  constructors of the four literal classes accept. The parameters of the three random
  variates are numbers.
\<close>

datatype expr =
    Column string
  | DatetimeLit "date option"
  | LogicalLit "bool option"
  | NumberLit "number option"
  | TextLit "string option"
  | RowNum
  | Exponential number
  | Normal number number
  | Uniform number number
  | Unary unary_kind expr
  | Binary binary_kind expr expr
  | IfElse expr expr expr

fun negation_name :: "negation_kind \<Rightarrow> string" where
  "negation_name K_negate = ''negate''"
| "negation_name K_not = ''not''"

fun typecheck_name :: "typecheck_kind \<Rightarrow> string" where
  "typecheck_name K_isLogical = ''isLogical''"
| "typecheck_name K_isDatetime = ''isDatetime''"
| "typecheck_name K_isMissing = ''isMissing''"
| "typecheck_name K_isNumber = ''isNumber''"
| "typecheck_name K_isText = ''isText''"

fun convert_name :: "convert_kind \<Rightarrow> string" where
  "convert_name K_toLogical = ''toLogical''"
| "convert_name K_toDatetime = ''toDatetime''"
| "convert_name K_toNumber = ''toNumber''"
| "convert_name K_toString = ''toString''"

fun datetime_name :: "datetime_kind \<Rightarrow> string" where
  "datetime_name K_toYear = ''toYear''"
| "datetime_name K_toMonth = ''toMonth''"
| "datetime_name K_toDay = ''toDay''"
| "datetime_name K_toWeekday = ''toWeekday''"
| "datetime_name K_toHours = ''toHours''"
| "datetime_name K_toMinutes = ''toMinutes''"
| "datetime_name K_toSeconds = ''toSeconds''"

fun unary_name :: "unary_kind \<Rightarrow> string" where
  "unary_name (Negation k) = negation_name k"
| "unary_name (Typecheck k) = typecheck_name k"
| "unary_name (Convert k) = convert_name k"
| "unary_name (DatetimeField k) = datetime_name k"

fun arithmetic_name :: "arithmetic_kind \<Rightarrow> string" where
  "arithmetic_name K_add = ''add''"
| "arithmetic_name K_divide = ''divide''"
| "arithmetic_name K_multiply = ''multiply''"
| "arithmetic_name K_power = ''power''"
| "arithmetic_name K_remainder = ''remainder''"
| "arithmetic_name K_subtract = ''subtract''"

fun compare_name :: "compare_kind \<Rightarrow> string" where
  "compare_name K_equal = ''equal''"
| "compare_name K_greater = ''greater''"
| "compare_name K_greaterEqual = ''greaterEqual''"
| "compare_name K_less = ''less''"
| "compare_name K_lessEqual = ''lessEqual''"
| "compare_name K_notEqual = ''notEqual''"

fun logical_name :: "logical_kind \<Rightarrow> string" where
  "logical_name K_and = ''and''"
| "logical_name K_or = ''or''"

fun binary_name :: "binary_kind \<Rightarrow> string" where
  "binary_name (Arithmetic k) = arithmetic_name k"
| "binary_name (Compare k) = compare_name k"
| "binary_name (LogicalOp k) = logical_name k"

text \<open>The field \<open>kind\<close>, set by every constructor from the \<open>KIND\<close> of its class.\<close>

fun kind :: "expr \<Rightarrow> string" where
  "kind (Column name) = ''column''"
| "kind (DatetimeLit v) = ''datetime''"
| "kind (LogicalLit v) = ''logical''"
| "kind (NumberLit v) = ''number''"
| "kind (TextLit v) = ''text''"
| "kind RowNum = ''rownum''"
| "kind (Exponential rate) = ''exponential''"
| "kind (Normal mean stdDev) = ''normal''"
| "kind (Uniform low high) = ''uniform''"
| "kind (Unary k arg) = unary_name k"
| "kind (Binary k left right) = binary_name k"
| "kind (IfElse left middle right) = ''ifElse''"

text \<open>\<open>other instanceof ExprNullaryBase\<close>, and the field \<open>value\<close> of such a node.\<close>

fun instanceof_Nullary :: "expr \<Rightarrow> bool" where
  "instanceof_Nullary (Column name) = True"
| "instanceof_Nullary (DatetimeLit v) = True"
| "instanceof_Nullary (LogicalLit v) = True"
| "instanceof_Nullary (NumberLit v) = True"
| "instanceof_Nullary (TextLit v) = True"
| "instanceof_Nullary _ = False"

fun nullary_value :: "expr \<Rightarrow> val" where
  "nullary_value (Column name) = Text name"
| "nullary_value (DatetimeLit v) = (case v of None \<Rightarrow> Missing | Some d \<Rightarrow> Datetime d)"
| "nullary_value (LogicalLit v) = (case v of None \<Rightarrow> Missing | Some b \<Rightarrow> Logical b)"
| "nullary_value (NumberLit v) = (case v of None \<Rightarrow> Missing | Some n \<Rightarrow> Number n)"
| "nullary_value (TextLit v) = (case v of None \<Rightarrow> Missing | Some s \<Rightarrow> Text s)"
| "nullary_value _ = Missing"

text \<open>
  Reading a field of \<open>other\<close> that its class does not set gives \<open>undefined\<close>, here \<open>None\<close>;
  \<open>===\<close> between a number and \<open>undefined\<close> is false.
\<close>

fun field_mean :: "expr \<Rightarrow> number option" where
  "field_mean (Normal mean stdDev) = Some mean"
| "field_mean _ = None"

fun field_stdDev :: "expr \<Rightarrow> number option" where
  "field_stdDev (Normal mean stdDev) = Some stdDev"
| "field_stdDev _ = None"

fun field_low :: "expr \<Rightarrow> number option" where
  "field_low (Uniform low high) = Some low"
| "field_low _ = None"

fun field_high :: "expr \<Rightarrow> number option" where
  "field_high (Uniform low high) = Some high"
| "field_high _ = None"

fun field_eq :: "number \<Rightarrow> number option \<Rightarrow> bool" where
  "field_eq a None = False"
| "field_eq a (Some b) = num_eq a b"

fun instanceof_Normal :: "expr \<Rightarrow> bool" where
  "instanceof_Normal (Normal mean stdDev) = True"
| "instanceof_Normal _ = False"

subsection \<open>Structural equality\<close>

text \<open>
  The method \<open>equal\<close>: the one of \<open>ExprNullaryBase\<close> for the five classes without a child,
  the ones of \<open>ExprRowNum\<close>, \<open>ExprExponential\<close>, \<open>ExprNormal\<close> and \<open>ExprUniform\<close>, and the
  ones of \<open>ExprUnary\<close>, \<open>ExprBinary\<close> and \<open>ExprTernaryBase\<close>.
\<close>

definition nullary_equal :: "expr \<Rightarrow> expr \<Rightarrow> bool" where
  "nullary_equal this other =
     (instanceof_Nullary other \<and> kind this = kind other \<and>
      util_equal (nullary_value this) (nullary_value other))"

fun expr_equal :: "expr \<Rightarrow> expr \<Rightarrow> bool" where
  "expr_equal (Column name) other = nullary_equal (Column name) other"
| "expr_equal (DatetimeLit v) other = nullary_equal (DatetimeLit v) other"
| "expr_equal (LogicalLit v) other = nullary_equal (LogicalLit v) other"
| "expr_equal (NumberLit v) other = nullary_equal (NumberLit v) other"
| "expr_equal (TextLit v) other = nullary_equal (TextLit v) other"
| "expr_equal RowNum other = (case other of RowNum \<Rightarrow> True | _ \<Rightarrow> False)"
| "expr_equal (Exponential rate) other =
     (case other of Exponential rate' \<Rightarrow> True | _ \<Rightarrow> False)"
| "expr_equal (Normal mean stdDev) other =
     (instanceof_Normal other \<and> field_eq mean (field_mean other) \<and>
      field_eq stdDev (field_stdDev other))"
| "expr_equal (Uniform low high) other =
     (instanceof_Normal other \<and> field_eq low (field_low other) \<and>
      field_eq high (field_high other))"
| "expr_equal (Unary k arg) other =
     (case other of
        Unary k' arg' \<Rightarrow> unary_name k = unary_name k' \<and> expr_equal arg arg'
      | _ \<Rightarrow> False)"
| "expr_equal (Binary k left right) other =
     (case other of
        Binary k' left' right' \<Rightarrow>
          binary_name k = binary_name k' \<and> expr_equal left left' \<and> expr_equal right right'
      | _ \<Rightarrow> False)"
| "expr_equal (IfElse left middle right) other =
     (case other of
        IfElse left' middle' right' \<Rightarrow>
          expr_equal left left' \<and> expr_equal middle middle' \<and> expr_equal right right'
      | _ \<Rightarrow> False)"

subsection \<open>Serialization\<close>

text \<open>
  \<open>toJSON\<close> builds nested arrays of strings and of the values the nodes hold. An array
  literal evaluates its elements from left to right, so the first element that raises
  ends the call.
\<close>

datatype json = Scalar val | Arr "json list"

definition Expr_KIND :: string where
  "Expr_KIND = ''@expr''"

definition jstring :: "string \<Rightarrow> json" where
  "jstring s = Scalar (Text s)"

fun toJSON :: "expr \<Rightarrow> error + json" where
  "toJSON (Column name) =
     Inr (Arr [jstring Expr_KIND, jstring ''column'', Scalar (Text name)])"
| "toJSON (DatetimeLit v) =
     Inr (Arr [jstring Expr_KIND, jstring ''datetime'', Scalar (nullary_value (DatetimeLit v))])"
| "toJSON (LogicalLit v) =
     Inr (Arr [jstring Expr_KIND, jstring ''logical'', Scalar (nullary_value (LogicalLit v))])"
| "toJSON (NumberLit v) =
     Inr (Arr [jstring Expr_KIND, jstring ''number'', Scalar (nullary_value (NumberLit v))])"
| "toJSON (TextLit v) =
     Inr (Arr [jstring Expr_KIND, jstring ''text'', Scalar (nullary_value (TextLit v))])"
| "toJSON RowNum = Inl (ReferenceError ''ExprKIND is not defined'')"
| "toJSON (Exponential rate) =
     Inr (Arr [jstring Expr_KIND, jstring ''exponential'', Scalar (Number rate)])"
| "toJSON (Normal mean stdDev) =
     Inr (Arr [jstring Expr_KIND, jstring ''normal'', Scalar (Number mean),
               Scalar (Number stdDev)])"
| "toJSON (Uniform low high) =
     Inr (Arr [jstring Expr_KIND, jstring ''uniform'', Scalar (Number low),
               Scalar (Number high)])"
| "toJSON (Unary k arg) =
     (case toJSON arg of
        Inl e \<Rightarrow> Inl e
      | Inr a \<Rightarrow> Inr (Arr [jstring Expr_KIND, jstring (unary_name k), a]))"
| "toJSON (Binary k left right) =
     (case toJSON left of
        Inl e \<Rightarrow> Inl e
      | Inr l \<Rightarrow>
          (case toJSON right of
             Inl e \<Rightarrow> Inl e
           | Inr r \<Rightarrow> Inr (Arr [jstring Expr_KIND, jstring (binary_name k), l, r])))"
| "toJSON (IfElse left middle right) =
     (case toJSON left of
        Inl e \<Rightarrow> Inl e
      | Inr l \<Rightarrow>
          (case toJSON middle of
             Inl e \<Rightarrow> Inl e
           | Inr m \<Rightarrow>
               (case toJSON right of
                  Inl e \<Rightarrow> Inl e
                | Inr r \<Rightarrow> Inr (Arr [jstring Expr_KIND, jstring ''ifElse'', l, m, r]))))"

section \<open>Evaluation\<close>

subsection \<open>The environment\<close>

text \<open>
  What \<open>run\<close> asks of the language and of the library \<open>@stdlib/random/base\<close>, and this
  development does not define: the six arithmetic operators on doubles (rounding, overflow
  and the results on special values are theirs), the parsers behind \<open>parseFloat\<close> and
  \<open>new Date(string)\<close>, the printers behind a template literal, the fields of a valid time
  value in the local time zone, and the three generators, which read and advance the state
  \<open>'g\<close> of the process-wide generator.
\<close>

record 'g host =
  js_add :: "number \<Rightarrow> number \<Rightarrow> number"
  js_subtract :: "number \<Rightarrow> number \<Rightarrow> number"
  js_multiply :: "number \<Rightarrow> number \<Rightarrow> number"
  js_divide :: "number \<Rightarrow> number \<Rightarrow> number"
  js_remainder :: "number \<Rightarrow> number \<Rightarrow> number"
  js_power :: "number \<Rightarrow> number \<Rightarrow> number"
  parseFloat :: "string \<Rightarrow> number"
  parseDate :: "string \<Rightarrow> date"
  numberToString :: "number \<Rightarrow> string"
  dateToString :: "date \<Rightarrow> string"
  getFullYear :: "int \<Rightarrow> int"
  getMonth :: "int \<Rightarrow> int"
  getDate :: "int \<Rightarrow> int"
  getDay :: "int \<Rightarrow> int"
  getHours :: "int \<Rightarrow> int"
  getMinutes :: "int \<Rightarrow> int"
  getSeconds :: "int \<Rightarrow> int"
  random_exponential :: "number \<Rightarrow> 'g \<Rightarrow> number \<times> 'g"
  random_normal :: "number \<Rightarrow> number \<Rightarrow> 'g \<Rightarrow> number \<times> 'g"
  random_uniform :: "number \<Rightarrow> number \<Rightarrow> 'g \<Rightarrow> number \<times> 'g"

text \<open>
  A call of \<open>run\<close> takes the row, the row number and the state of the generator; it raises
  an error or returns a value and the state it leaves.
\<close>

type_synonym 'g runner = "row \<Rightarrow> val \<Rightarrow> 'g \<Rightarrow> error + val \<times> 'g"

definition andThen :: "error + 'a \<Rightarrow> ('a \<Rightarrow> error + 'b) \<Rightarrow> error + 'b" where
  "andThen r f = (case r of Inl e \<Rightarrow> Inl e | Inr x \<Rightarrow> f x)"

subsection \<open>Pieces of the language used by the nodes\<close>

text \<open>
  A getter of a \<open>Date\<close>: \<open>NaN\<close> on the invalid date, the field of the time value otherwise.
\<close>

definition date_get :: "(int \<Rightarrow> int) \<Rightarrow> date \<Rightarrow> number" where
  "date_get field d = (case d of InvalidDate \<Rightarrow> NaN | Date t \<Rightarrow> Finite (of_int (field t)))"

text \<open>
  \<open>x + 1\<close>, for the \<open>x\<close> a getter returns: an integer far below \<open>2 ^ 53\<close>, where the sum is
  exact, or \<open>NaN\<close>, which stays.
\<close>

definition plus_one :: "number \<Rightarrow> number" where
  "plus_one x = (case x of Finite q \<Rightarrow> Finite (q + 1) | NegZero \<Rightarrow> Finite 1
                 | PosInf \<Rightarrow> PosInf | NegInf \<Rightarrow> NegInf | NaN \<Rightarrow> NaN)"

text \<open>
  \<open>new Date(value)\<close>: a string is parsed; a number is a time value, valid when it is
  finite and at most \<open>8.64e15\<close> in magnitude, and cut to an integer towards zero; a
  boolean counts as 1 or 0; a date is copied. (\<open>run\<close> never passes the missing value.)
\<close>

definition rat_trunc :: "rat \<Rightarrow> int" where
  "rat_trunc q = (if 0 \<le> q then \<lfloor>q\<rfloor> else \<lceil>q\<rceil>)"

fun newDate :: "'g host \<Rightarrow> val \<Rightarrow> date" where
  "newDate h (Text s) = parseDate h s"
| "newDate h (Number n) =
     (case n of
        Finite q \<Rightarrow> (if \<bar>q\<bar> \<le> 8640000000000000 then Date (rat_trunc q) else InvalidDate)
      | NegZero \<Rightarrow> Date 0
      | PosInf \<Rightarrow> InvalidDate
      | NegInf \<Rightarrow> InvalidDate
      | NaN \<Rightarrow> InvalidDate)"
| "newDate h (Logical b) = Date (if b then 1 else 0)"
| "newDate h (Datetime d) = d"
| "newDate h Missing = InvalidDate"

text \<open>
  \<open>left < right\<close> and \<open>left <= right\<close> on two values of one type: numbers and strings as
  above, booleans as 0 and 1, dates by their time values. Operands of two types do not
  reach a comparison (see \<open>comparison\<close> below).
\<close>

fun js_less :: "val \<Rightarrow> val \<Rightarrow> bool" where
  "js_less (Number a) (Number b) = num_less a b"
| "js_less (Text a) (Text b) = str_less a b"
| "js_less (Logical a) (Logical b) = (\<not> a \<and> b)"
| "js_less (Datetime a) (Datetime b) = num_less (getTime a) (getTime b)"
| "js_less _ _ = False"

fun js_lessEqual :: "val \<Rightarrow> val \<Rightarrow> bool" where
  "js_lessEqual (Number a) (Number b) = num_le a b"
| "js_lessEqual (Text a) (Text b) = (\<not> str_less b a)"
| "js_lessEqual (Logical a) (Logical b) = (\<not> a \<or> b)"
| "js_lessEqual (Datetime a) (Datetime b) = num_le (getTime a) (getTime b)"
| "js_lessEqual _ _ = False"

subsection \<open>The methods of the base classes\<close>

definition safeValue :: "number \<Rightarrow> val" where
  "safeValue v = (if isFinite v then Number v else Missing)"

text \<open>
  \<open>ExprArithmeticBase.arithmetic\<close>. After the two calls of \<open>checkNumber\<close> an operand that is
  not missing is a number.
\<close>

definition arithmetic ::
  "'g runner \<Rightarrow> 'g runner \<Rightarrow> string \<Rightarrow> (number \<Rightarrow> number \<Rightarrow> number) \<Rightarrow> 'g runner" where
  "arithmetic this_left this_right this_kind func row i g =
     andThen (this_left row i g) (\<lambda>(left, g1).
     andThen (checkNumber left (''Require number for '' @ this_kind)) (\<lambda>_.
     andThen (this_right row i g1) (\<lambda>(right, g2).
     andThen (checkNumber right (''Require number for '' @ this_kind)) (\<lambda>_.
       Inr (case (left, right) of
              (Number a, Number b) \<Rightarrow> safeValue (func a b)
            | _ \<Rightarrow> Missing, g2)))))"

text \<open>\<open>ExprCompareBase.comparison\<close>.\<close>

definition comparison ::
  "'g runner \<Rightarrow> 'g runner \<Rightarrow> string \<Rightarrow> (val \<Rightarrow> val \<Rightarrow> bool) \<Rightarrow> 'g runner" where
  "comparison this_left this_right this_kind func row i g =
     andThen (this_left row i g) (\<lambda>(left, g1).
     andThen (this_right row i g1) (\<lambda>(right, g2).
     andThen (checkTypeEqual left right (''Require equal types for '' @ this_kind)) (\<lambda>_.
       Inr (if left = Missing \<or> right = Missing then Missing
            else Logical (func left right), g2))))"

text \<open>\<open>ExprTypecheckBase.typeCheck\<close>.\<close>

definition typeCheck :: "'g runner \<Rightarrow> jstype \<Rightarrow> 'g runner" where
  "typeCheck this_arg typeName row i g =
     andThen (this_arg row i g) (\<lambda>(v, g1).
       Inr (if v = Missing then Missing else Logical (typeof v = typeName), g1))"

text \<open>
  \<open>ExprDatetimeBase.dateValue\<close>. \<open>value instanceof Date\<close> holds of every date, invalid or
  not.
\<close>

definition dateValue :: "'g runner \<Rightarrow> string \<Rightarrow> (date \<Rightarrow> number) \<Rightarrow> 'g runner" where
  "dateValue this_arg this_kind func row i g =
     andThen (this_arg row i g) (\<lambda>(v, g1).
       if v = Missing then Inr (Missing, g1)
       else (case v of
               Datetime d \<Rightarrow> Inr (Number (func d), g1)
             | _ \<Rightarrow> Inl (CheckFailed (''Require date for '' @ this_kind))))"

subsection \<open>The method \<open>run\<close> of each class\<close>

text \<open>
  In \<open>ExprColumn.run\<close> and \<open>ExprNegate.run\<close> the message is built from \<open>this.name\<close>, a field
  no constructor sets, so it reads \<open>undefined\<close>. A row is an object.
\<close>

definition column_run :: "string \<Rightarrow> 'g runner" where
  "column_run this_value row i g =
     (case row this_value of
        None \<Rightarrow> Inl (CheckFailed ''undefined not in row'')
      | Some v \<Rightarrow> Inr (v, g))"

definition negate_run :: "'g runner \<Rightarrow> 'g runner" where
  "negate_run this_arg row i g =
     andThen (this_arg row i g) (\<lambda>(v, g1).
     andThen (checkNumber v ''Require number for undefined'') (\<lambda>_.
       Inr (case v of Number n \<Rightarrow> safeValue (num_neg n) | _ \<Rightarrow> Missing, g1)))"

definition not_run :: "'g runner \<Rightarrow> 'g runner" where
  "not_run this_arg row i g =
     andThen (this_arg row i g) (\<lambda>(v, g1).
       Inr (if v = Missing then Missing
            else Logical (if \<not> truthy v then True else False), g1))"

definition isDatetime_run :: "'g runner \<Rightarrow> 'g runner" where
  "isDatetime_run this_arg row i g =
     andThen (this_arg row i g) (\<lambda>(v, g1).
       Inr (if v = Missing then Missing
            else Logical (case v of Datetime d \<Rightarrow> True | _ \<Rightarrow> False), g1))"

definition isMissing_run :: "'g runner \<Rightarrow> 'g runner" where
  "isMissing_run this_arg row i g =
     andThen (this_arg row i g) (\<lambda>(v, g1). Inr (Logical (v = Missing), g1))"

definition toLogical_run :: "'g runner \<Rightarrow> 'g runner" where
  "toLogical_run this_arg row i g =
     andThen (this_arg row i g) (\<lambda>(v, g1).
       Inr (if v = Missing then Missing
            else Logical (if truthy v then True else False), g1))"

definition toDatetime_run :: "'g host \<Rightarrow> 'g runner \<Rightarrow> 'g runner" where
  "toDatetime_run h this_arg row i g =
     andThen (this_arg row i g) (\<lambda>(v, g1).
       if v = Missing then Inr (Missing, g1)
       else (let result = newDate h v
             in Inr (if result = InvalidDate then Missing else Datetime result, g1)))"

definition toNumber_run :: "'g host \<Rightarrow> 'g runner \<Rightarrow> 'g runner" where
  "toNumber_run h this_arg row i g =
     andThen (this_arg row i g) (\<lambda>(v, g1).
       Inr (case v of
              Logical b \<Rightarrow> Number (if b then Finite 1 else Finite 0)
            | Datetime d \<Rightarrow> Number (getTime d)
            | Text s \<Rightarrow> (let n = parseFloat h s in if n = NaN then Missing else Number n)
            | _ \<Rightarrow> v, g1))"

text \<open>
  In \<open>ExprToString.run\<close> the template literal \<open>`${value}`\<close> prints a number and a date
  with the printers of the language and a boolean as \<open>true\<close> or \<open>false\<close>.
\<close>

definition toString_run :: "'g host \<Rightarrow> 'g runner \<Rightarrow> 'g runner" where
  "toString_run h this_arg row i g =
     andThen (this_arg row i g) (\<lambda>(v, g1).
       Inr (case v of
              Missing \<Rightarrow> Missing
            | Text s \<Rightarrow> Text s
            | Number n \<Rightarrow> Text (numberToString h n)
            | Logical b \<Rightarrow> Text (if b then ''true'' else ''false'')
            | Datetime d \<Rightarrow> Text (dateToString h d), g1))"

definition and_run :: "'g runner \<Rightarrow> 'g runner \<Rightarrow> 'g runner" where
  "and_run this_left this_right row i g =
     andThen (this_left row i g) (\<lambda>(left, g1).
       if \<not> truthy left then Inr (left, g1) else this_right row i g1)"

definition or_run :: "'g runner \<Rightarrow> 'g runner \<Rightarrow> 'g runner" where
  "or_run this_left this_right row i g =
     andThen (this_left row i g) (\<lambda>(left, g1).
       if truthy left then Inr (left, g1) else this_right row i g1)"

definition ifElse_run :: "'g runner \<Rightarrow> 'g runner \<Rightarrow> 'g runner \<Rightarrow> 'g runner" where
  "ifElse_run this_left this_middle this_right row i g =
     andThen (this_left row i g) (\<lambda>(cond, g1).
       if cond = Missing then Inr (Missing, g1)
       else if truthy cond then this_middle row i g1 else this_right row i g1)"

text \<open>The function each arithmetic, comparison and datetime class hands to its base.\<close>

fun arithmetic_func :: "'g host \<Rightarrow> arithmetic_kind \<Rightarrow> number \<Rightarrow> number \<Rightarrow> number" where
  "arithmetic_func h K_add = js_add h"
| "arithmetic_func h K_divide = js_divide h"
| "arithmetic_func h K_multiply = js_multiply h"
| "arithmetic_func h K_power = js_power h"
| "arithmetic_func h K_remainder = js_remainder h"
| "arithmetic_func h K_subtract = js_subtract h"

fun compare_func :: "compare_kind \<Rightarrow> val \<Rightarrow> val \<Rightarrow> bool" where
  "compare_func K_equal = (\<lambda>left right. util_equal left right)"
| "compare_func K_greater = (\<lambda>left right. js_less right left)"
| "compare_func K_greaterEqual = (\<lambda>left right. js_lessEqual right left)"
| "compare_func K_less = (\<lambda>left right. js_less left right)"
| "compare_func K_lessEqual = (\<lambda>left right. js_lessEqual left right)"
| "compare_func K_notEqual = (\<lambda>left right. \<not> util_equal left right)"

fun datetime_func :: "'g host \<Rightarrow> datetime_kind \<Rightarrow> date \<Rightarrow> number" where
  "datetime_func h K_toYear = (\<lambda>d. date_get (getFullYear h) d)"
| "datetime_func h K_toMonth = (\<lambda>d. plus_one (date_get (getMonth h) d))"
| "datetime_func h K_toDay = (\<lambda>d. date_get (getDate h) d)"
| "datetime_func h K_toWeekday = (\<lambda>d. date_get (getDay h) d)"
| "datetime_func h K_toHours = (\<lambda>d. date_get (getHours h) d)"
| "datetime_func h K_toMinutes = (\<lambda>d. date_get (getMinutes h) d)"
| "datetime_func h K_toSeconds = (\<lambda>d. date_get (getSeconds h) d)"

fun unary_run :: "'g host \<Rightarrow> unary_kind \<Rightarrow> 'g runner \<Rightarrow> 'g runner" where
  "unary_run h (Negation K_negate) arg = negate_run arg"
| "unary_run h (Negation K_not) arg = not_run arg"
| "unary_run h (Typecheck K_isLogical) arg = typeCheck arg TBoolean"
| "unary_run h (Typecheck K_isDatetime) arg = isDatetime_run arg"
| "unary_run h (Typecheck K_isMissing) arg = isMissing_run arg"
| "unary_run h (Typecheck K_isNumber) arg = typeCheck arg TNumber"
| "unary_run h (Typecheck K_isText) arg = typeCheck arg TString"
| "unary_run h (Convert K_toLogical) arg = toLogical_run arg"
| "unary_run h (Convert K_toDatetime) arg = toDatetime_run h arg"
| "unary_run h (Convert K_toNumber) arg = toNumber_run h arg"
| "unary_run h (Convert K_toString) arg = toString_run h arg"
| "unary_run h (DatetimeField k) arg = dateValue arg (datetime_name k) (datetime_func h k)"

fun binary_run :: "'g host \<Rightarrow> binary_kind \<Rightarrow> 'g runner \<Rightarrow> 'g runner \<Rightarrow> 'g runner" where
  "binary_run h (Arithmetic k) left right =
     arithmetic left right (arithmetic_name k) (arithmetic_func h k)"
| "binary_run h (Compare k) left right =
     comparison left right (compare_name k) (compare_func k)"
| "binary_run h (LogicalOp K_and) left right = and_run left right"
| "binary_run h (LogicalOp K_or) left right = or_run left right"

primrec run :: "'g host \<Rightarrow> expr \<Rightarrow> 'g runner" where
  "run h (Column name) = column_run name"
| "run h (DatetimeLit v) = (\<lambda>row i g. Inr (nullary_value (DatetimeLit v), g))"
| "run h (LogicalLit v) = (\<lambda>row i g. Inr (nullary_value (LogicalLit v), g))"
| "run h (NumberLit v) = (\<lambda>row i g. Inr (nullary_value (NumberLit v), g))"
| "run h (TextLit v) = (\<lambda>row i g. Inr (nullary_value (TextLit v), g))"
| "run h RowNum = (\<lambda>row i g. Inr (i, g))"
| "run h (Exponential rate) =
     (\<lambda>row i g. case random_exponential h rate g of (x, g') \<Rightarrow> Inr (Number x, g'))"
| "run h (Normal mean stdDev) =
     (\<lambda>row i g. case random_normal h mean stdDev g of (x, g') \<Rightarrow> Inr (Number x, g'))"
| "run h (Uniform low high) =
     (\<lambda>row i g. case random_uniform h low high g of (x, g') \<Rightarrow> Inr (Number x, g'))"
| "run h (Unary k arg) = unary_run h k (run h arg)"
| "run h (Binary k left right) = binary_run h k (run h left) (run h right)"
| "run h (IfElse left middle right) = ifElse_run (run h left) (run h middle) (run h right)"

subsection \<open>An environment to run examples in\<close>

text \<open>
  The examples below need an environment. This one computes exactly on finite numbers
  (no rounding, no overflow) and answers \<open>NaN\<close> when an operand is not finite, divides by
  zero as the doubles do, reads only strings of decimal digits as numbers and only the
  epoch as a date, keeps the calendar in UTC, and draws the successive natural numbers
  from its generator.
\<close>

fun finite_part :: "number \<Rightarrow> rat option" where
  "finite_part (Finite q) = Some q"
| "finite_part NegZero = Some 0"
| "finite_part _ = None"

definition exact_op :: "(rat \<Rightarrow> rat \<Rightarrow> rat) \<Rightarrow> number \<Rightarrow> number \<Rightarrow> number" where
  "exact_op f a b =
     (case (finite_part a, finite_part b) of
        (Some x, Some y) \<Rightarrow> Finite (f x y)
      | _ \<Rightarrow> NaN)"

definition exact_divide :: "number \<Rightarrow> number \<Rightarrow> number" where
  "exact_divide a b =
     (case (finite_part a, finite_part b) of
        (Some x, Some y) \<Rightarrow>
          (if y = 0 then (if x = 0 then NaN else if 0 < x then PosInf else NegInf)
           else Finite (x / y))
      | _ \<Rightarrow> NaN)"

definition exact_remainder :: "number \<Rightarrow> number \<Rightarrow> number" where
  "exact_remainder a b =
     (case (finite_part a, finite_part b) of
        (Some x, Some y) \<Rightarrow>
          (if y = 0 then NaN else Finite (x - y * of_int (rat_trunc (x / y))))
      | _ \<Rightarrow> NaN)"

definition exact_power :: "number \<Rightarrow> number \<Rightarrow> number" where
  "exact_power a b =
     (case (finite_part a, finite_part b) of
        (Some x, Some y) \<Rightarrow>
          (if 0 \<le> y \<and> of_int \<lfloor>y\<rfloor> = y then Finite (x ^ nat \<lfloor>y\<rfloor>) else NaN)
      | _ \<Rightarrow> NaN)"

definition is_digit :: "char \<Rightarrow> bool" where
  "is_digit c = (48 \<le> (of_char c :: nat) \<and> (of_char c :: nat) \<le> 57)"

definition digits_value :: "string \<Rightarrow> nat" where
  "digits_value s = foldl (\<lambda>n c. 10 * n + (of_char c - 48)) 0 s"

definition digits_parseFloat :: "string \<Rightarrow> number" where
  "digits_parseFloat s =
     (if s \<noteq> [] \<and> list_all is_digit s then Finite (of_nat (digits_value s)) else NaN)"

definition epoch_parseDate :: "string \<Rightarrow> date" where
  "epoch_parseDate s = (if s = ''1970-01-01T00:00:00.000Z'' then Date 0 else InvalidDate)"

fun show_nat :: "nat \<Rightarrow> string" where
  "show_nat n =
     (if n < 10 then [char_of (48 + n)]
      else show_nat (n div 10) @ [char_of (48 + n mod 10)])"

definition show_int :: "int \<Rightarrow> string" where
  "show_int k = (if k < 0 then CHR ''-'' # show_nat (nat (- k)) else show_nat (nat k))"

definition plain_numberToString :: "number \<Rightarrow> string" where
  "plain_numberToString n =
     (case n of
        Finite q \<Rightarrow> show_int (rat_trunc q)
      | NegZero \<Rightarrow> ''0''
      | PosInf \<Rightarrow> ''Infinity''
      | NegInf \<Rightarrow> ''-Infinity''
      | NaN \<Rightarrow> ''NaN'')"

definition plain_dateToString :: "date \<Rightarrow> string" where
  "plain_dateToString d = (case d of InvalidDate \<Rightarrow> ''Invalid Date'' | Date t \<Rightarrow> show_int t)"

text \<open>The civil calendar from the count of days since the epoch, in UTC.\<close>

definition utc_day_of_era :: "int \<Rightarrow> int" where
  "utc_day_of_era t = (t div 86400000 + 719468) mod 146097"

definition utc_year_of_era :: "int \<Rightarrow> int" where
  "utc_year_of_era t =
     (let doe = utc_day_of_era t
      in (doe - doe div 1460 + doe div 36524 - doe div 146096) div 365)"

definition utc_day_of_year :: "int \<Rightarrow> int" where
  "utc_day_of_year t =
     (let yoe = utc_year_of_era t
      in utc_day_of_era t - (365 * yoe + yoe div 4 - yoe div 100))"

definition utc_month :: "int \<Rightarrow> int" where
  "utc_month t =
     (let mp = (5 * utc_day_of_year t + 2) div 153
      in if mp < 10 then mp + 2 else mp - 10)"

definition utc_date :: "int \<Rightarrow> int" where
  "utc_date t =
     (let mp = (5 * utc_day_of_year t + 2) div 153
      in utc_day_of_year t - (153 * mp + 2) div 5 + 1)"

definition utc_year :: "int \<Rightarrow> int" where
  "utc_year t =
     utc_year_of_era t + (t div 86400000 + 719468) div 146097 * 400
       + (if utc_month t \<le> 1 then 1 else 0)"

definition example_host :: "nat host" where
  "example_host =
     \<lparr> js_add = exact_op (\<lambda>x y. x + y),
       js_subtract = exact_op (\<lambda>x y. x - y),
       js_multiply = exact_op (\<lambda>x y. x * y),
       js_divide = exact_divide,
       js_remainder = exact_remainder,
       js_power = exact_power,
       parseFloat = digits_parseFloat,
       parseDate = epoch_parseDate,
       numberToString = plain_numberToString,
       dateToString = plain_dateToString,
       getFullYear = utc_year,
       getMonth = utc_month,
       getDate = utc_date,
       getDay = (\<lambda>t. (t div 86400000 + 4) mod 7),
       getHours = (\<lambda>t. (t div 3600000) mod 24),
       getMinutes = (\<lambda>t. (t div 60000) mod 60),
       getSeconds = (\<lambda>t. (t div 1000) mod 60),
       random_exponential = (\<lambda>rate g. (Finite (of_nat g), Suc g)),
       random_normal = (\<lambda>mean stdDev g. (Finite (of_nat g), Suc g)),
       random_uniform = (\<lambda>low high g. (Finite (of_nat g), Suc g)) \<rparr>"

section \<open>Serialization and equality\<close>

fun contains_rownum :: "expr \<Rightarrow> bool" where
  "contains_rownum RowNum = True"
| "contains_rownum (Unary k arg) = contains_rownum arg"
| "contains_rownum (Binary k left right) = (contains_rownum left \<or> contains_rownum right)"
| "contains_rownum (IfElse left middle right) =
     (contains_rownum left \<or> contains_rownum middle \<or> contains_rownum right)"
| "contains_rownum _ = False"

text \<open>
  Away from \<open>rownum\<close>, \<open>toJSON\<close> returns an array that starts with the tag and the kind.
\<close>

lemma toJSON_without_rownum:
  "\<not> contains_rownum e \<Longrightarrow>
     \<exists>rest. toJSON e = Inr (Arr (jstring Expr_KIND # jstring (kind e) # rest))"
  by (induction e) auto

lemma toJSON_one_error:
  "toJSON e = Inl x \<Longrightarrow> x = ReferenceError ''ExprKIND is not defined''"
  by (induction e arbitrary: x) (auto split: sum.splits)

lemma toJSON_with_rownum_raises: "contains_rownum e \<Longrightarrow> \<exists>x. toJSON e = Inl x"
  by (induction e) (auto split: sum.splits)

lemma toJSON_with_rownum:
  "contains_rownum e \<Longrightarrow> toJSON e = Inl (ReferenceError ''ExprKIND is not defined'')"
  using toJSON_with_rownum_raises[of e] toJSON_one_error[of e] by auto

text \<open>
  C1. Every node serializes to a nested array that starts with the tag \<open>@expr\<close> and the
  name of the variant. The code does not do so on \<open>rownum\<close>: \<open>ExprRowNum.toJSON\<close> reads
  the identifier \<open>ExprKIND\<close>, which nothing declares (every other class reads
  \<open>Expr.KIND\<close>), so the call raises a \<open>ReferenceError\<close>, and so does the serialization of
  every tree with a \<open>rownum\<close> in it.
\<close>

theorem toJSON_rownum_raises:
  "toJSON RowNum = Inl (ReferenceError ''ExprKIND is not defined'') \<and>
   toJSON (Binary (Arithmetic K_add) RowNum (NumberLit (Some (Finite 1))))
     = Inl (ReferenceError ''ExprKIND is not defined'')"
  by simp

text \<open>
  What \<open>equal\<close> answers on the random variates, whatever their parameters are.
\<close>

lemma uniform_equal_nothing: "expr_equal (Uniform low high) other = False"
  by (cases other) simp_all

lemma exponential_equal_any: "expr_equal (Exponential rate) (Exponential rate') = True"
  by simp

text \<open>
  C2. Structural equality compares the variant and all children and parameters. The code
  does not on two classes: \<open>ExprUniform.equal\<close> tests \<open>other instanceof ExprNormal\<close> (the
  test of \<open>ExprNormal.equal\<close>, pasted), so a uniform node equals no node, itself included;
  \<open>ExprExponential.equal\<close> tests the class only, so two exponential nodes with different
  rates are equal.
\<close>

theorem equal_uniform_exponential_wrong:
  "expr_equal (Uniform (Finite 0) (Finite 1)) (Uniform (Finite 0) (Finite 1)) = False \<and>
   expr_equal (Exponential (Finite 1)) (Exponential (Finite 2)) = True"
  by simp

section \<open>Missing values and number safety in arithmetic\<close>

lemma arithmetic_result:
  assumes "this_left row i g = Inr (a, g1)" and "this_right row i g1 = Inr (b, g2)"
    and "checkNumber a (''Require number for '' @ this_kind) = Inr ()"
    and "checkNumber b (''Require number for '' @ this_kind) = Inr ()"
  shows "arithmetic this_left this_right this_kind func row i g =
           Inr (case (a, b) of (Number x, Number y) \<Rightarrow> safeValue (func x y)
                | _ \<Rightarrow> Missing, g2)"
  using assms by (simp add: arithmetic_def andThen_def)

lemma checkNumber_accepts:
  "v = Missing \<or> (\<exists>n. v = Number n) \<Longrightarrow> checkNumber v message = Inr ()"
  by (auto simp: checkNumber_def)

text \<open>
  An operand that is neither missing nor a number ends the evaluation, also when the
  other operand is missing.
\<close>

lemma arithmetic_rejects_right:
  assumes "run h left row i g = Inr (Missing, g1)" and "run h right row i g1 = Inr (b, g2)"
    and "b \<noteq> Missing" and "\<forall>n. b \<noteq> Number n"
  shows "run h (Binary (Arithmetic k) left right) row i g =
           Inl (NotNumber (''Require number for '' @ arithmetic_name k))"
  using assms by (cases b) (simp_all add: arithmetic_def andThen_def checkNumber_def)

text \<open>
  C3, as the spec states it: in a binary arithmetic node, if either operand evaluates to
  the missing value then so does the node. It fails when the other operand is, say, a
  text: the left operand of \<open>add(number(MISSING), text('a'))\<close> evaluates to the missing
  value, the right one to \<open>'a'\<close>, and the node raises the error of \<open>checkNumber\<close>.
\<close>

theorem arithmetic_missing_counterexample:
  "run example_host (NumberLit None) Map.empty (Number (Finite 0)) 0 = Inr (Missing, 0) \<and>
   run example_host (TextLit (Some ''a'')) Map.empty (Number (Finite 0)) 0
     = Inr (Text ''a'', 0) \<and>
   run example_host (Binary (Arithmetic K_add) (NumberLit None) (TextLit (Some ''a'')))
       Map.empty (Number (Finite 0)) 0
     = Inl (NotNumber ''Require number for add'')"
  by (simp add: arithmetic_def andThen_def checkNumber_def)

text \<open>
  C3, amended: in a binary arithmetic node (add, subtract, multiply, divide, remainder,
  power), on every row, if both operands evaluate, each to the missing value or to a
  number, and either is the missing value, then the node evaluates to the missing value.
  The right operand runs in the state of the generator the left one leaves.
\<close>

theorem arithmetic_missing:
  assumes "run h left row i g = Inr (a, g1)" and "run h right row i g1 = Inr (b, g2)"
    and "a = Missing \<or> (\<exists>n. a = Number n)" and "b = Missing \<or> (\<exists>n. b = Number n)"
    and "a = Missing \<or> b = Missing"
  shows "run h (Binary (Arithmetic k) left right) row i g = Inr (Missing, g2)"
proof -
  have "run h (Binary (Arithmetic k) left right) row i g =
          Inr (case (a, b) of (Number x, Number y) \<Rightarrow> safeValue (arithmetic_func h k x y)
               | _ \<Rightarrow> Missing, g2)"
    using assms(1,2) checkNumber_accepts[OF assms(3)] checkNumber_accepts[OF assms(4)]
    by (simp add: arithmetic_result)
  with assms(3,4,5) show ?thesis by auto
qed

theorem arithmetic_missing_witness:
  "run example_host (Column ''first'') [''first'' \<mapsto> Number (Finite 1)] (Number (Finite 0)) 0
     = Inr (Number (Finite 1), 0) \<and>
   run example_host (NumberLit None) [''first'' \<mapsto> Number (Finite 1)] (Number (Finite 0)) 0
     = Inr (Missing, 0) \<and>
   run example_host (Binary (Arithmetic K_divide) (Column ''first'') (NumberLit None))
       [''first'' \<mapsto> Number (Finite 1)] (Number (Finite 0)) 0
     = Inr (Missing, 0)"
proof -
  let ?row = "[''first'' \<mapsto> Number (Finite 1)]"
  have l: "run example_host (Column ''first'') ?row (Number (Finite 0)) 0
             = Inr (Number (Finite 1), 0)"
    by (simp add: column_run_def)
  have r: "run example_host (NumberLit None) ?row (Number (Finite 0)) 0 = Inr (Missing, 0)"
    by simp
  have "run example_host (Binary (Arithmetic K_divide) (Column ''first'') (NumberLit None))
          ?row (Number (Finite 0)) 0 = Inr (Missing, 0)"
    by (rule arithmetic_missing[OF l r]) simp_all
  with l r show ?thesis by simp
qed

text \<open>
  C4. Every arithmetic result passes the filter \<open>safeValue\<close>: when the operands of a binary
  arithmetic node evaluate to numbers, the node evaluates to the result of the operator
  if that result is finite and to the missing value if it is not (an infinity or \<open>NaN\<close>);
  so does \<open>negate\<close> on its operand.
\<close>

theorem arithmetic_safe:
  "(run h left row i g = Inr (Number a, g1) \<and> run h right row i g1 = Inr (Number b, g2)
      \<longrightarrow> run h (Binary (Arithmetic k) left right) row i g =
            Inr (if isFinite (arithmetic_func h k a b)
                 then Number (arithmetic_func h k a b) else Missing, g2)) \<and>
   (run h arg row i g = Inr (Number c, g3)
      \<longrightarrow> run h (Unary (Negation K_negate) arg) row i g =
            Inr (if isFinite (num_neg c) then Number (num_neg c) else Missing, g3))"
  by (simp add: arithmetic_def negate_run_def andThen_def checkNumber_def safeValue_def)

theorem arithmetic_safe_witness:
  "run example_host (Binary (Arithmetic K_divide) (NumberLit (Some (Finite 1)))
       (NumberLit (Some (Finite 0)))) Map.empty (Number (Finite 0)) 0
     = Inr (Missing, 0) \<and>
   run example_host (Binary (Arithmetic K_divide) (NumberLit (Some (Finite 1)))
       (NumberLit (Some (Finite 2)))) Map.empty (Number (Finite 0)) 0
     = Inr (Number (Finite (1 / 2)), 0) \<and>
   run example_host (Unary (Negation K_negate) (NumberLit (Some (Finite 1))))
       Map.empty (Number (Finite 0)) 0
     = Inr (Number (Finite (- 1)), 0) \<and>
   run example_host (Unary (Negation K_negate) (NumberLit (Some PosInf)))
       Map.empty (Number (Finite 0)) 0
     = Inr (Missing, 0)"
  using
    arithmetic_safe[of example_host "NumberLit (Some (Finite 1))" Map.empty "Number (Finite 0)"
      0 "Finite 1" 0 "NumberLit (Some (Finite 0))" "Finite 0" 0 K_divide
      "NumberLit (Some (Finite 1))" "Finite 1" 0]
    arithmetic_safe[of example_host "NumberLit (Some (Finite 1))" Map.empty "Number (Finite 0)"
      0 "Finite 1" 0 "NumberLit (Some (Finite 2))" "Finite 2" 0 K_divide
      "NumberLit (Some PosInf)" PosInf 0]
  by (simp add: example_host_def exact_divide_def isFinite_def num_neg_def)

section \<open>Logical operators\<close>

text \<open>
  C5. \<open>and\<close> returns the value of its left operand, as it is, when that value is falsy (the
  missing value is falsy), and then does not evaluate the right operand: the result is
  the same whatever the right operand is, also one that raises, and the generator is in
  the state the left operand left. Otherwise it returns what the right operand returns.
  \<open>or\<close> does the same with truthy in place of falsy.
\<close>

theorem logical_short_circuit:
  "(run h left row i g = Inr (v, g1) \<and> \<not> truthy v
      \<longrightarrow> run h (Binary (LogicalOp K_and) left right) row i g = Inr (v, g1)) \<and>
   (run h left row i g = Inr (v, g1) \<and> truthy v
      \<longrightarrow> run h (Binary (LogicalOp K_and) left right) row i g = run h right row i g1) \<and>
   (run h left row i g = Inr (v, g1) \<and> truthy v
      \<longrightarrow> run h (Binary (LogicalOp K_or) left right) row i g = Inr (v, g1)) \<and>
   (run h left row i g = Inr (v, g1) \<and> \<not> truthy v
      \<longrightarrow> run h (Binary (LogicalOp K_or) left right) row i g = run h right row i g1) \<and>
   \<not> truthy Missing"
  by (simp add: and_run_def or_run_def andThen_def)

theorem logical_short_circuit_witness:
  "run example_host (Binary (LogicalOp K_and) (LogicalLit None) (Column ''absent''))
       Map.empty (Number (Finite 0)) 0
     = Inr (Missing, 0) \<and>
   run example_host (Binary (LogicalOp K_or) (LogicalLit None) (NumberLit (Some (Finite 0))))
       Map.empty (Number (Finite 0)) 0
     = Inr (Number (Finite 0), 0) \<and>
   run example_host (Binary (LogicalOp K_and) (TextLit (Some ''x'')) (NumberLit (Some (Finite 0))))
       Map.empty (Number (Finite 0)) 0
     = Inr (Number (Finite 0), 0) \<and>
   run example_host (Binary (LogicalOp K_or) (TextLit (Some ''x'')) (Column ''absent''))
       Map.empty (Number (Finite 0)) 0
     = Inr (Text ''x'', 0)"
  using
    logical_short_circuit[where h = example_host and left = "LogicalLit None"
      and row = Map.empty and i = "Number (Finite 0)" and g = 0 and v = Missing and ?g1.0 = 0
      and right = "Column ''absent''"]
    logical_short_circuit[where h = example_host and left = "LogicalLit None"
      and row = Map.empty and i = "Number (Finite 0)" and g = 0 and v = Missing and ?g1.0 = 0
      and right = "NumberLit (Some (Finite 0))"]
    logical_short_circuit[where h = example_host and left = "TextLit (Some ''x'')"
      and row = Map.empty and i = "Number (Finite 0)" and g = 0 and v = "Text ''x''"
      and ?g1.0 = 0 and right = "NumberLit (Some (Finite 0))"]
    logical_short_circuit[where h = example_host and left = "TextLit (Some ''x'')"
      and row = Map.empty and i = "Number (Finite 0)" and g = 0 and v = "Text ''x''"
      and ?g1.0 = 0 and right = "Column ''absent''"]
  by simp

section \<open>Comparisons\<close>

text \<open>
  C6. In a comparison node (equal, notEqual, greater, greaterEqual, less, lessEqual), on
  every row: if either operand evaluates to the missing value, so does the node, whatever
  the type of the other operand is; if neither is missing and their runtime types differ,
  the evaluation fails with a type mismatch.
\<close>

theorem comparison_missing_or_mismatch:
  assumes "run h left row i g = Inr (a, g1)" and "run h right row i g1 = Inr (b, g2)"
  shows "(a = Missing \<or> b = Missing
            \<longrightarrow> run h (Binary (Compare k) left right) row i g = Inr (Missing, g2)) \<and>
         (a \<noteq> Missing \<and> b \<noteq> Missing \<and> typeof a \<noteq> typeof b
            \<longrightarrow> run h (Binary (Compare k) left right) row i g =
                  Inl (TypeMismatch (''Require equal types for '' @ compare_name k)))"
  using assms by (auto simp: comparison_def andThen_def checkTypeEqual_def)

theorem comparison_missing_or_mismatch_witness:
  "run example_host (Binary (Compare K_less) (NumberLit None) (TextLit (Some ''a'')))
       Map.empty (Number (Finite 0)) 0
     = Inr (Missing, 0) \<and>
   run example_host (Binary (Compare K_equal) (NumberLit (Some (Finite 1))) (TextLit (Some ''1'')))
       Map.empty (Number (Finite 0)) 0
     = Inl (TypeMismatch ''Require equal types for equal'')"
proof -
  have n: "run example_host (NumberLit None) Map.empty (Number (Finite 0)) 0 = Inr (Missing, 0)"
    by simp
  have a: "run example_host (TextLit (Some ''a'')) Map.empty (Number (Finite 0)) 0
             = Inr (Text ''a'', 0)"
    by simp
  have one: "run example_host (NumberLit (Some (Finite 1))) Map.empty (Number (Finite 0)) 0
               = Inr (Number (Finite 1), 0)"
    by simp
  have t: "run example_host (TextLit (Some ''1'')) Map.empty (Number (Finite 0)) 0
             = Inr (Text ''1'', 0)"
    by simp
  show ?thesis
    using comparison_missing_or_mismatch[OF n a, of K_less]
      comparison_missing_or_mismatch[OF one t, of K_equal]
    by simp
qed

section \<open>Conversions and predicates\<close>

text \<open>
  C7. A conversion that fails raises no error. When the operand evaluates, \<open>toDatetime\<close>
  and \<open>toNumber\<close> return a value and leave the state of the generator as the operand left
  it; \<open>toDatetime\<close> returns the missing value when \<open>new Date\<close> gives the invalid date (as on
  the text \<open>abc\<close>), and \<open>toNumber\<close> returns the missing value on a text that \<open>parseFloat\<close>
  reads as \<open>NaN\<close>.
\<close>

theorem conversion_failure_is_missing:
  assumes "run h arg row i g = Inr (v, g1)"
  shows "(newDate h v = InvalidDate
            \<longrightarrow> run h (Unary (Convert K_toDatetime) arg) row i g = Inr (Missing, g1)) \<and>
         (v = Text s \<and> parseFloat h s = NaN
            \<longrightarrow> run h (Unary (Convert K_toNumber) arg) row i g = Inr (Missing, g1)) \<and>
         (\<exists>w. run h (Unary (Convert K_toDatetime) arg) row i g = Inr (w, g1)) \<and>
         (\<exists>w. run h (Unary (Convert K_toNumber) arg) row i g = Inr (w, g1))"
  using assms by (simp add: toDatetime_run_def toNumber_run_def andThen_def Let_def)

theorem conversion_failure_is_missing_witness:
  "newDate example_host (Text ''abc'') = InvalidDate \<and>
   parseFloat example_host ''abc'' = NaN \<and>
   run example_host (Unary (Convert K_toDatetime) (TextLit (Some ''abc'')))
       Map.empty (Number (Finite 0)) 0
     = Inr (Missing, 0) \<and>
   run example_host (Unary (Convert K_toNumber) (TextLit (Some ''abc'')))
       Map.empty (Number (Finite 0)) 0
     = Inr (Missing, 0)"
proof -
  have a: "run example_host (TextLit (Some ''abc'')) Map.empty (Number (Finite 0)) 0
             = Inr (Text ''abc'', 0)"
    by simp
  have d: "newDate example_host (Text ''abc'') = InvalidDate"
    by (simp add: example_host_def epoch_parseDate_def)
  have p: "parseFloat example_host ''abc'' = NaN"
    by (simp add: example_host_def digits_parseFloat_def is_digit_def)
  show ?thesis
    using conversion_failure_is_missing[OF a, of "''abc''"] d p by simp
qed

text \<open>
  C8. Each of \<open>isNumber\<close>, \<open>isText\<close>, \<open>isLogical\<close> and \<open>isDatetime\<close> evaluates to the missing
  value when its operand does; \<open>isMissing\<close> always evaluates to a boolean, true exactly
  when its operand evaluates to the missing value.
\<close>

theorem type_predicates_on_missing:
  assumes "run h arg row i g = Inr (v, g1)"
  shows "(k \<noteq> K_isMissing \<and> v = Missing
            \<longrightarrow> run h (Unary (Typecheck k) arg) row i g = Inr (Missing, g1)) \<and>
         run h (Unary (Typecheck K_isMissing) arg) row i g = Inr (Logical (v = Missing), g1)"
  using assms
  by (cases k) (simp_all add: typeCheck_def isDatetime_run_def isMissing_run_def andThen_def)

theorem type_predicates_on_missing_witness:
  "run example_host (Unary (Typecheck K_isNumber) (NumberLit None))
       Map.empty (Number (Finite 0)) 0
     = Inr (Missing, 0) \<and>
   run example_host (Unary (Typecheck K_isMissing) (NumberLit None))
       Map.empty (Number (Finite 0)) 0
     = Inr (Logical True, 0) \<and>
   run example_host (Unary (Typecheck K_isMissing) (NumberLit (Some (Finite 1))))
       Map.empty (Number (Finite 0)) 0
     = Inr (Logical False, 0)"
proof -
  have n: "run example_host (NumberLit None) Map.empty (Number (Finite 0)) 0 = Inr (Missing, 0)"
    by simp
  have one: "run example_host (NumberLit (Some (Finite 1))) Map.empty (Number (Finite 0)) 0
               = Inr (Number (Finite 1), 0)"
    by simp
  show ?thesis
    using type_predicates_on_missing[OF n, of K_isNumber]
      type_predicates_on_missing[OF one, of K_isNumber]
    by simp
qed

section \<open>Fields of a date\<close>

text \<open>
  C9, as the spec states it: on a missing operand a datetime field extractor gives the
  missing value, on an operand that is neither missing nor a datetime it fails, and on a
  datetime operand \<open>toMonth\<close> returns a month number from 1 to 12. The last part fails on
  the \<open>Date\<close> object that holds no time value: \<open>new Expr.datetime(new Date('abc'))\<close> passes
  the check of the constructor and the check of \<open>dateValue\<close> (both are
  \<open>value instanceof Date\<close>), its \<open>getMonth()\<close> is \<open>NaN\<close>, and \<open>toMonth\<close> returns \<open>NaN\<close>.
\<close>

theorem toMonth_invalid_date_counterexample:
  "run example_host (DatetimeLit (Some InvalidDate)) Map.empty (Number (Finite 0)) 0
     = Inr (Datetime InvalidDate, 0) \<and>
   run example_host (Unary (DatetimeField K_toMonth) (DatetimeLit (Some InvalidDate)))
       Map.empty (Number (Finite 0)) 0
     = Inr (Number NaN, 0)"
  by (simp add: dateValue_def andThen_def date_get_def plus_one_def)

text \<open>
  C9, amended: in a datetime field extractor (\<open>toYear\<close>, \<open>toMonth\<close>, \<open>toDay\<close>, \<open>toWeekday\<close>,
  \<open>toHours\<close>, \<open>toMinutes\<close>, \<open>toSeconds\<close>), on every row: a missing operand gives the missing
  value; an operand that is neither missing nor a date fails the check (nothing is
  converted); and on a datetime that holds a time value, \<open>toMonth\<close> returns the month of
  the language, which counts from 0 to 11, plus one: a number from 1 to 12.
\<close>

theorem datetime_field:
  assumes "run h arg row i g = Inr (v, g1)"
  shows "(v = Missing
            \<longrightarrow> run h (Unary (DatetimeField k) arg) row i g = Inr (Missing, g1)) \<and>
         (v \<noteq> Missing \<and> (\<forall>d. v \<noteq> Datetime d)
            \<longrightarrow> run h (Unary (DatetimeField k) arg) row i g =
                  Inl (CheckFailed (''Require date for '' @ datetime_name k))) \<and>
         (v = Datetime (Date t) \<and> 0 \<le> getMonth h t \<and> getMonth h t \<le> 11
            \<longrightarrow> run h (Unary (DatetimeField K_toMonth) arg) row i g =
                  Inr (Number (Finite (of_int (getMonth h t + 1))), g1) \<and>
                1 \<le> getMonth h t + 1 \<and> getMonth h t + 1 \<le> 12)"
  using assms
  by (cases v) (simp_all add: dateValue_def andThen_def date_get_def plus_one_def)

theorem datetime_field_witness:
  "run example_host (Unary (DatetimeField K_toWeekday) (DatetimeLit None))
       Map.empty (Number (Finite 0)) 0
     = Inr (Missing, 0) \<and>
   run example_host (Unary (DatetimeField K_toYear) (TextLit (Some ''2020-11-03'')))
       Map.empty (Number (Finite 0)) 0
     = Inl (CheckFailed ''Require date for toYear'') \<and>
   getMonth example_host 1604361600000 = 10 \<and>
   run example_host (Unary (DatetimeField K_toMonth) (DatetimeLit (Some (Date 1604361600000))))
       Map.empty (Number (Finite 0)) 0
     = Inr (Number (Finite 11), 0)"
proof -
  have n: "run example_host (DatetimeLit None) Map.empty (Number (Finite 0)) 0
             = Inr (Missing, 0)"
    by simp
  have s: "run example_host (TextLit (Some ''2020-11-03'')) Map.empty (Number (Finite 0)) 0
             = Inr (Text ''2020-11-03'', 0)"
    by simp
  have d: "run example_host (DatetimeLit (Some (Date 1604361600000))) Map.empty
             (Number (Finite 0)) 0 = Inr (Datetime (Date 1604361600000), 0)"
    by simp
  have m: "getMonth example_host 1604361600000 = 10"
    by (simp add: example_host_def utc_month_def utc_day_of_year_def utc_year_of_era_def
          utc_day_of_era_def)
  show ?thesis
    using datetime_field[OF n, where k = K_toWeekday] datetime_field[OF s, where k = K_toYear]
      datetime_field[OF d, where t = 1604361600000] m
    by simp
qed

section \<open>Selection\<close>

text \<open>
  C10. In an \<open>ifElse\<close> node, on every row: if the condition evaluates to the missing value,
  so does the node, and no branch is evaluated (the result does not depend on the
  branches and the generator is in the state the condition left); if the condition is
  truthy the node returns what the then-branch returns, run after the condition, and the
  else-branch is not evaluated; otherwise it returns what the else-branch returns, and
  the then-branch is not evaluated.
\<close>

theorem ifElse_branches:
  assumes "run h left row i g = Inr (c, g1)"
  shows "(c = Missing
            \<longrightarrow> run h (IfElse left middle right) row i g = Inr (Missing, g1)) \<and>
         (c \<noteq> Missing \<and> truthy c
            \<longrightarrow> run h (IfElse left middle right) row i g = run h middle row i g1) \<and>
         (c \<noteq> Missing \<and> \<not> truthy c
            \<longrightarrow> run h (IfElse left middle right) row i g = run h right row i g1)"
  using assms by (simp add: ifElse_run_def andThen_def)

theorem ifElse_branches_witness:
  "run example_host (IfElse (LogicalLit None) (Column ''absent'') (Column ''absent''))
       Map.empty (Number (Finite 0)) 0
     = Inr (Missing, 0) \<and>
   run example_host (IfElse (LogicalLit (Some True)) (TextLit (Some ''then'')) (Column ''absent''))
       Map.empty (Number (Finite 0)) 0
     = Inr (Text ''then'', 0) \<and>
   run example_host (IfElse (LogicalLit (Some False)) (Column ''absent'') (TextLit (Some ''else'')))
       Map.empty (Number (Finite 0)) 0
     = Inr (Text ''else'', 0)"
proof -
  have n: "run example_host (LogicalLit None) Map.empty (Number (Finite 0)) 0
             = Inr (Missing, 0)"
    by simp
  have t: "run example_host (LogicalLit (Some True)) Map.empty (Number (Finite 0)) 0
             = Inr (Logical True, 0)"
    by simp
  have f: "run example_host (LogicalLit (Some False)) Map.empty (Number (Finite 0)) 0
             = Inr (Logical False, 0)"
    by simp
  show ?thesis
    using ifElse_branches[OF n, of "Column ''absent''" "Column ''absent''"]
      ifElse_branches[OF t, of "TextLit (Some ''then'')" "Column ''absent''"]
      ifElse_branches[OF f, of "Column ''absent''" "TextLit (Some ''else'')"]
    by simp
qed

end
